theory Spec2Isabelle
  imports Main "HOL-Library.Word" "HOL-Library.Char_ord" "HOL-Library.List_Lexorder"
begin

section \<open>The ingress gateway port analyzer (galley/pkg/config/analysis/analyzers/gateway)\<close>

text \<open>
  A shallow embedding of \<^verbatim>\<open>gateway.go\<close>: the analyzer walks every Gateway resource
  of a snapshot, collects the TCP ports of the Kubernetes services that select the
  gateway's pods, and reports the gateway servers whose port no such service offers.

  Go's \<^verbatim>\<open>uint32\<close> and \<^verbatim>\<open>int32\<close> are 32-bit words, Go's \<^verbatim>\<open>int\<close> is the 64-bit
  word of the platforms the analyzer is built for. A Go map is a reference to a
  mutable object: the maps live in an explicit store, and a variable of map type
  holds a reference into it.
\<close>

subsection \<open>Resources\<close>

type_synonym uint32 = "32 word"
type_synonym int32 = "32 word"
type_synonym goint = "64 word"

text \<open>\<^verbatim>\<open>map[string]string\<close>: label sets and selectors.\<close>

type_synonym labels = "string \<rightharpoonup> string"

text \<open>Indexing a Go map of strings: a missing key reads as the empty string.\<close>

definition index :: "labels \<Rightarrow> string \<Rightarrow> string" where
  "index m k = (case m k of None \<Rightarrow> [] | Some v \<Rightarrow> v)"

text \<open>\<^verbatim>\<open>len(m)\<close> of a Go map: the number of its keys.\<close>

definition len :: "labels \<Rightarrow> nat" where
  "len m = card (dom m)"

record FullName =
  Namespace :: string
  Name :: string

text \<open>
  \<^verbatim>\<open>resource.Instance\<close>: the metadata of a resource and its payload. The payload has
  the type of the collection the resource belongs to, so the type assertions of the
  source (\<^verbatim>\<open>r.Message.(*v1alpha3.Gateway)\<close> and the like) are not modelled.
\<close>

record 'm Instance =
  Metadata :: FullName
  Message :: 'm

record ObjectMeta =
  pod_Namespace :: string
  Labels :: labels

record Pod =
  ObjectMeta :: ObjectMeta

record ServicePort =
  Protocol :: string
  Port :: int32

record ServiceSpec =
  svc_Selector :: labels
  Ports :: "ServicePort list"

record Port =
  Number :: uint32

text \<open>\<^verbatim>\<open>server.Port\<close> is a pointer: \<open>None\<close> is \<^verbatim>\<open>nil\<close>.\<close>

record Server =
  srv_Port :: "Port option"

record Gateway =
  Selector :: labels
  Servers :: "Server list"

subsection \<open>The label selector library\<close>

text \<open>
  \<^verbatim>\<open>k8s_labels.SelectorFromSet\<close> belongs to the Kubernetes client library. The
  analyzer uses two methods of the selector it returns, \<^verbatim>\<open>Matches\<close> and
  \<^verbatim>\<open>String\<close>; a selector is the record of what they answer, and the analyzer takes
  \<open>SelectorFromSet\<close> as a parameter.
\<close>

record LabelSelector =
  Matches :: "labels \<Rightarrow> bool"
  String :: string

subsection \<open>Messages\<close>

datatype collection =
  IstioNetworkingV1Alpha3Gateways
  | K8SCoreV1Pods
  | K8SCoreV1Services

text \<open>
  The two messages of package \<^verbatim>\<open>msg\<close> the analyzer builds, each with the resource it
  is reported on and the parameters the constructor is given.
\<close>

datatype message =
  ReferencedResourceNotFound "Gateway Instance" string string
  | GatewayPortNotOnWorkload "Gateway Instance" string goint

subsection \<open>The analysis context and the store\<close>

text \<open>The snapshot of an analysis pass: the resources of the three input collections.\<close>

record Context =
  gateways :: "Gateway Instance list"
  pods :: "Pod Instance list"
  services :: "ServiceSpec Instance list"

type_synonym portmap = "uint32 \<rightharpoonup> bool"

text \<open>
  A value of type \<^verbatim>\<open>map[uint32]bool\<close> is a reference: either to the map object of
  the package variable \<^verbatim>\<open>defaultIngressGatewayPorts\<close>, or to an object created by
  a map literal while the analyzer runs.
\<close>

datatype mapref =
  DefaultIngressGatewayPortsRef
  | LiteralRef nat

record state =
  defaultIngressGatewayPorts :: portmap
  literals :: "portmap list"
  messages :: "(collection \<times> message) list"

text \<open>The package variable as its initialiser leaves it (lines 37 to 42).\<close>

definition initialPorts :: portmap where
  "initialPorts = [80 \<mapsto> True, 443 \<mapsto> True, 31400 \<mapsto> True, 15443 \<mapsto> True]"

definition initialState :: state where
  "initialState =
     \<lparr>defaultIngressGatewayPorts = initialPorts, literals = [], messages = []\<rparr>"

text \<open>\<^verbatim>\<open>map[uint32]bool{}\<close>: a new, empty map object.\<close>

definition newMap :: "state \<Rightarrow> mapref \<times> state" where
  "newMap st = (LiteralRef (length (literals st)), st\<lparr>literals := literals st @ [Map.empty]\<rparr>)"

text \<open>
  The object a reference points to. The analyzer holds no reference but the one to
  the default ports and those \<open>newMap\<close> returned, which are in range; out of range,
  a read finds no key and an assignment changes nothing.
\<close>

fun deref :: "state \<Rightarrow> mapref \<Rightarrow> portmap" where
  "deref st DefaultIngressGatewayPortsRef = defaultIngressGatewayPorts st"
| "deref st (LiteralRef a) = (if a < length (literals st) then literals st ! a else Map.empty)"

text \<open>\<^verbatim>\<open>m[k] = v\<close>: the assignment changes the object, for every reference to it.\<close>

fun assign :: "mapref \<Rightarrow> uint32 \<Rightarrow> bool \<Rightarrow> state \<Rightarrow> state" where
  "assign DefaultIngressGatewayPortsRef k v st =
     st\<lparr>defaultIngressGatewayPorts := (defaultIngressGatewayPorts st)(k \<mapsto> v)\<rparr>"
| "assign (LiteralRef a) k v st =
     (if a < length (literals st)
      then st\<lparr>literals := (literals st)[a := (literals st ! a)(k \<mapsto> v)]\<rparr>
      else st)"

text \<open>\<^verbatim>\<open>_, ok := m[k]\<close>: whether the key is present.\<close>

definition present :: "state \<Rightarrow> mapref \<Rightarrow> uint32 \<Rightarrow> bool" where
  "present st m k = (deref st m k \<noteq> None)"

text \<open>
  Modelled from the spec: \<^verbatim>\<open>analysis.Context\<close> is declared outside the sources.
  \<open>ForEach\<close> invokes the visitor once per resource of a collection, in a stable
  order, and stops early when the visitor answers \<open>False\<close>; \<open>Report\<close> attaches a
  message to the analysis run.
\<close>

fun ForEach :: "'r list \<Rightarrow> ('r \<Rightarrow> 's \<Rightarrow> bool \<times> 's) \<Rightarrow> 's \<Rightarrow> 's" where
  "ForEach [] fn s = s"
| "ForEach (r # rs) fn s =
     (case fn r s of (continue, s') \<Rightarrow> if continue then ForEach rs fn s' else s')"

definition Report :: "collection \<Rightarrow> message \<Rightarrow> state \<Rightarrow> state" where
  "Report col m st = st\<lparr>messages := messages st @ [(col, m)]\<rparr>"

subsection \<open>The analyzer\<close>

text \<open>Conversions: \<^verbatim>\<open>uint32(port.Port)\<close> and \<^verbatim>\<open>int(server.Port.Number)\<close>.\<close>

definition uint32_of_int32 :: "int32 \<Rightarrow> uint32" where
  "uint32_of_int32 p = ucast p"

definition int_of_uint32 :: "uint32 \<Rightarrow> goint" where
  "int_of_uint32 n = ucast n"

text \<open>Lines 97 to 101: the loop over the ports of a service.\<close>

fun addServicePorts :: "mapref \<Rightarrow> ServicePort list \<Rightarrow> state \<Rightarrow> state" where
  "addServicePorts servicePorts [] st = st"
| "addServicePorts servicePorts (port # ports) st =
     addServicePorts servicePorts ports
       (if Protocol port = ''TCP''
        then assign servicePorts (uint32_of_int32 (Port port)) True st
        else st)"

text \<open>Lines 87 to 104: the visitor of the services, for one selected pod.\<close>

definition serviceVisitor ::
  "(labels \<Rightarrow> LabelSelector) \<Rightarrow> mapref \<Rightarrow> Pod \<Rightarrow> ServiceSpec Instance \<Rightarrow> state \<Rightarrow> bool \<times> state"
where
  "serviceVisitor SelectorFromSet servicePorts pod rSvc st =
     (let nsSvc = Namespace (Metadata rSvc) in
      if nsSvc \<noteq> pod_Namespace (ObjectMeta pod) then (True, st)
      else
        let service = Message rSvc;
            svcSelector = SelectorFromSet (svc_Selector service)
        in if Matches svcSelector (Labels (ObjectMeta pod))
           then (True, addServicePorts servicePorts (Ports service) st)
           else (True, st))"

text \<open>
  Lines 82 to 107: the visitor of the pods. The closure updates the local variable
  \<^verbatim>\<open>gwSelectorMatches\<close>, which is threaded beside the state.
\<close>

definition podVisitor ::
  "(labels \<Rightarrow> LabelSelector) \<Rightarrow> Context \<Rightarrow> LabelSelector \<Rightarrow> mapref \<Rightarrow> Pod Instance \<Rightarrow>
     goint \<times> state \<Rightarrow> bool \<times> goint \<times> state"
where
  "podVisitor SelectorFromSet c gwSelector servicePorts rPod = (\<lambda>(gwSelectorMatches, st).
     let pod = Message rPod;
         podLabels = Labels (ObjectMeta pod)
     in if Matches gwSelector podLabels
        then (True, gwSelectorMatches + 1,
                ForEach (services c) (serviceVisitor SelectorFromSet servicePorts pod) st)
        else (True, gwSelectorMatches, st))"

text \<open>
  Lines 77 to 107: a fresh map and a zero counter, then the pass over the pods. The
  result is the reference held by \<^verbatim>\<open>servicePorts\<close>, the counter and the state.
\<close>

definition findServicePorts ::
  "(labels \<Rightarrow> LabelSelector) \<Rightarrow> Context \<Rightarrow> Gateway Instance \<Rightarrow> state \<Rightarrow> mapref \<times> goint \<times> state"
where
  "findServicePorts SelectorFromSet c r st =
     (let gw = Message r;
          (servicePorts, st1) = newMap st;
          gwSelector = SelectorFromSet (Selector gw);
          (gwSelectorMatches, st2) =
             ForEach (pods c) (podVisitor SelectorFromSet c gwSelector servicePorts) (0, st1)
      in (servicePorts, gwSelectorMatches, st2))"

text \<open>
  Lines 109 to 121: without a selected pod, either the report and the early return
  (\<open>None\<close>), or the reference to the default ports takes the place of the local one.
\<close>

definition resolveServicePorts ::
  "(labels \<Rightarrow> LabelSelector) \<Rightarrow> Gateway Instance \<Rightarrow> mapref \<Rightarrow> goint \<Rightarrow> state \<Rightarrow>
     mapref option \<times> state"
where
  "resolveServicePorts SelectorFromSet r servicePorts gwSelectorMatches st =
     (let gw = Message r;
          gwSelector = SelectorFromSet (Selector gw)
      in if gwSelectorMatches = 0 then
           if len (Selector gw) \<noteq> 1 \<or> index (Selector gw) ''istio'' \<noteq> ''ingressgateway''
           then (None, Report IstioNetworkingV1Alpha3Gateways
                         (ReferencedResourceNotFound r ''selector'' (String gwSelector)) st)
           else (Some DefaultIngressGatewayPortsRef, st)
         else (Some servicePorts, st))"

text \<open>Lines 124 to 131: the loop over the servers of the gateway.\<close>

fun checkServers ::
  "Gateway Instance \<Rightarrow> LabelSelector \<Rightarrow> mapref \<Rightarrow> Server list \<Rightarrow> state \<Rightarrow> state"
where
  "checkServers r gwSelector servicePorts [] st = st"
| "checkServers r gwSelector servicePorts (server # servers) st =
     checkServers r gwSelector servicePorts servers
       (case srv_Port server of
          None \<Rightarrow> st
        | Some port \<Rightarrow>
            let ok = present st servicePorts (Number port)
            in if \<not> ok
               then Report IstioNetworkingV1Alpha3Gateways
                      (GatewayPortNotOnWorkload r (String gwSelector) (int_of_uint32 (Number port))) st
               else st)"

definition analyzeGateway ::
  "(labels \<Rightarrow> LabelSelector) \<Rightarrow> Context \<Rightarrow> Gateway Instance \<Rightarrow> state \<Rightarrow> state"
where
  "analyzeGateway SelectorFromSet c r st =
     (let gw = Message r;
          gwSelector = SelectorFromSet (Selector gw);
          (servicePorts, gwSelectorMatches, st1) = findServicePorts SelectorFromSet c r st
      in case resolveServicePorts SelectorFromSet r servicePorts gwSelectorMatches st1 of
           (None, st2) \<Rightarrow> st2
         | (Some servicePorts', st2) \<Rightarrow>
             checkServers r gwSelector servicePorts' (Servers gw) st2)"

text \<open>Lines 62 to 67: the visitor of the gateways, and the pass.\<close>

definition gatewayVisitor ::
  "(labels \<Rightarrow> LabelSelector) \<Rightarrow> Context \<Rightarrow> Gateway Instance \<Rightarrow> state \<Rightarrow> bool \<times> state"
where
  "gatewayVisitor SelectorFromSet c r st = (True, analyzeGateway SelectorFromSet c r st)"

definition Analyze :: "(labels \<Rightarrow> LabelSelector) \<Rightarrow> Context \<Rightarrow> state \<Rightarrow> state" where
  "Analyze SelectorFromSet c st = ForEach (gateways c) (gatewayVisitor SelectorFromSet c) st"

section \<open>Notions for the statements and proofs\<close>

text \<open>
  What the analyzer computes, said with sets and lists. Nothing here is part of the
  analyzer: the lemmas below relate its loops to these notions.
\<close>

text \<open>A port map after the ports of \<open>S\<close> have been assigned \<open>True\<close>.\<close>

definition mark :: "uint32 set \<Rightarrow> portmap \<Rightarrow> portmap" where
  "mark S m = (\<lambda>k. if k \<in> S then Some True else m k)"

definition tcpPorts :: "ServicePort list \<Rightarrow> uint32 set" where
  "tcpPorts ports = {uint32_of_int32 (Port p) | p. p \<in> set ports \<and> Protocol p = ''TCP''}"

text \<open>The services of a pod's namespace whose selector matches the pod's labels.\<close>

definition selectedServices ::
  "(labels \<Rightarrow> LabelSelector) \<Rightarrow> ServiceSpec Instance list \<Rightarrow> Pod \<Rightarrow> ServiceSpec Instance list"
where
  "selectedServices SelectorFromSet svcs pod =
     filter (\<lambda>rSvc. Namespace (Metadata rSvc) = pod_Namespace (ObjectMeta pod) \<and>
                     Matches (SelectorFromSet (svc_Selector (Message rSvc))) (Labels (ObjectMeta pod)))
       svcs"

definition podPorts ::
  "(labels \<Rightarrow> LabelSelector) \<Rightarrow> ServiceSpec Instance list \<Rightarrow> Pod \<Rightarrow> uint32 set"
where
  "podPorts SelectorFromSet svcs pod =
     (\<Union>rSvc \<in> set (selectedServices SelectorFromSet svcs pod). tcpPorts (Ports (Message rSvc)))"

text \<open>The pods the selector of a gateway matches, and the TCP ports offered to them.\<close>

definition selectedPods ::
  "(labels \<Rightarrow> LabelSelector) \<Rightarrow> Context \<Rightarrow> Gateway Instance \<Rightarrow> Pod Instance list"
where
  "selectedPods SelectorFromSet c r =
     filter (\<lambda>rPod. Matches (SelectorFromSet (Selector (Message r))) (Labels (ObjectMeta (Message rPod))))
       (pods c)"

definition offeredPorts ::
  "(labels \<Rightarrow> LabelSelector) \<Rightarrow> Context \<Rightarrow> Gateway Instance \<Rightarrow> uint32 set"
where
  "offeredPorts SelectorFromSet c r =
     (\<Union>rPod \<in> set (selectedPods SelectorFromSet c r).
        podPorts SelectorFromSet (services c) (Message rPod))"

text \<open>The port messages of a list of servers, against a set of offered ports.\<close>

definition portMessages ::
  "Gateway Instance \<Rightarrow> LabelSelector \<Rightarrow> uint32 set \<Rightarrow> Server list \<Rightarrow> (collection \<times> message) list"
where
  "portMessages r gwSelector offered servers =
     concat (map (\<lambda>server.
        case srv_Port server of
          None \<Rightarrow> []
        | Some port \<Rightarrow>
            if Number port \<in> offered then []
            else [(IstioNetworkingV1Alpha3Gateways,
                   GatewayPortNotOnWorkload r (String gwSelector) (int_of_uint32 (Number port)))])
       servers)"

text \<open>All the messages of one gateway, given the keys of the default ports table.\<close>

definition gatewayMessages ::
  "(labels \<Rightarrow> LabelSelector) \<Rightarrow> Context \<Rightarrow> uint32 set \<Rightarrow> Gateway Instance \<Rightarrow>
     (collection \<times> message) list"
where
  "gatewayMessages SelectorFromSet c defaults r =
     (let gwSelector = SelectorFromSet (Selector (Message r)) in
      if (of_nat (length (selectedPods SelectorFromSet c r)) :: goint) = 0 then
        if Selector (Message r) \<noteq> [''istio'' \<mapsto> ''ingressgateway'']
        then [(IstioNetworkingV1Alpha3Gateways,
               ReferencedResourceNotFound r ''selector'' (String gwSelector))]
        else portMessages r gwSelector defaults (Servers (Message r))
      else portMessages r gwSelector (offeredPorts SelectorFromSet c r) (Servers (Message r)))"

section \<open>A selector library and a snapshot\<close>

text \<open>
  Modelled from the spec: the selector library is outside the sources. Matching is
  conjunctive (every required pair is present and equal, no requirement matches
  everything). The spec leaves the string form open; here it lists the requirements
  \<^verbatim>\<open>key=value\<close> in key order, with commas between them. The theorems hold for
  every \<open>SelectorFromSet\<close>; this one serves where a theorem is applied to the
  concrete snapshots below.
\<close>

fun joinWith :: "string \<Rightarrow> string list \<Rightarrow> string" where
  "joinWith sep [] = []"
| "joinWith sep [x] = x"
| "joinWith sep (x # y # ys) = x @ sep @ joinWith sep (y # ys)"

definition selectorFromSet :: "labels \<Rightarrow> LabelSelector" where
  "selectorFromSet ls =
     \<lparr>Matches = (\<lambda>labels. \<forall>k \<in> dom ls. labels k = ls k),
      String = joinWith '','' (map (\<lambda>k. k @ ''='' @ index ls k) (sorted_list_of_set (dom ls)))\<rparr>"

text \<open>
  Two pods in two namespaces; a service of namespace \<^verbatim>\<open>ns\<close> that selects the first pod
  and offers TCP port 80 and UDP port 53; a service of the other namespace with the
  same selector; and a service that selects the second pod and offers UDP only.
\<close>

definition podGw :: "Pod Instance" where
  "podGw = \<lparr>Metadata = \<lparr>Namespace = ''ns'', Name = ''gw-pod''\<rparr>,
            Message = \<lparr>ObjectMeta = \<lparr>pod_Namespace = ''ns'', Labels = [''app'' \<mapsto> ''gw'']\<rparr>\<rparr>\<rparr>"

definition podDb :: "Pod Instance" where
  "podDb = \<lparr>Metadata = \<lparr>Namespace = ''other'', Name = ''db-pod''\<rparr>,
            Message = \<lparr>ObjectMeta = \<lparr>pod_Namespace = ''other'', Labels = [''app'' \<mapsto> ''db'']\<rparr>\<rparr>\<rparr>"

definition svcWeb :: "ServiceSpec Instance" where
  "svcWeb = \<lparr>Metadata = \<lparr>Namespace = ''ns'', Name = ''web''\<rparr>,
             Message = \<lparr>svc_Selector = [''app'' \<mapsto> ''gw''],
                        Ports = [\<lparr>Protocol = ''TCP'', Port = 80\<rparr>, \<lparr>Protocol = ''UDP'', Port = 53\<rparr>]\<rparr>\<rparr>"

definition svcFar :: "ServiceSpec Instance" where
  "svcFar = \<lparr>Metadata = \<lparr>Namespace = ''other'', Name = ''far''\<rparr>,
             Message = \<lparr>svc_Selector = [''app'' \<mapsto> ''gw''],
                        Ports = [\<lparr>Protocol = ''TCP'', Port = 9000\<rparr>]\<rparr>\<rparr>"

definition svcDns :: "ServiceSpec Instance" where
  "svcDns = \<lparr>Metadata = \<lparr>Namespace = ''other'', Name = ''dns''\<rparr>,
             Message = \<lparr>svc_Selector = [''app'' \<mapsto> ''db''],
                        Ports = [\<lparr>Protocol = ''UDP'', Port = 53\<rparr>]\<rparr>\<rparr>"

definition serverOn :: "uint32 \<Rightarrow> Server" where
  "serverOn n = \<lparr>srv_Port = Some \<lparr>Number = n\<rparr>\<rparr>"

definition portless :: Server where
  "portless = \<lparr>srv_Port = None\<rparr>"

text \<open>
  Four gateways: one that selects the first pod, one with the selector of the system
  ingress gateway, one whose selector matches no pod, one that selects the second pod.
\<close>

definition gwApp :: "Gateway Instance" where
  "gwApp = \<lparr>Metadata = \<lparr>Namespace = ''ns'', Name = ''app-gateway''\<rparr>,
            Message = \<lparr>Selector = [''app'' \<mapsto> ''gw''],
                       Servers = [serverOn 443, portless, serverOn 80]\<rparr>\<rparr>"

definition gwSystem :: "Gateway Instance" where
  "gwSystem = \<lparr>Metadata = \<lparr>Namespace = ''ns'', Name = ''system-gateway''\<rparr>,
               Message = \<lparr>Selector = [''istio'' \<mapsto> ''ingressgateway''],
                          Servers = [serverOn 31400, serverOn 8080]\<rparr>\<rparr>"

definition gwUnknown :: "Gateway Instance" where
  "gwUnknown = \<lparr>Metadata = \<lparr>Namespace = ''ns'', Name = ''unknown-gateway''\<rparr>,
                Message = \<lparr>Selector = [''app'' \<mapsto> ''unknown''],
                           Servers = [serverOn 80]\<rparr>\<rparr>"

definition gwDb :: "Gateway Instance" where
  "gwDb = \<lparr>Metadata = \<lparr>Namespace = ''other'', Name = ''db-gateway''\<rparr>,
           Message = \<lparr>Selector = [''app'' \<mapsto> ''db''],
                      Servers = [serverOn 80, serverOn 443]\<rparr>\<rparr>"

definition snapshot :: Context where
  "snapshot = \<lparr>gateways = [gwApp, gwSystem, gwUnknown, gwDb],
               pods = [podGw, podDb],
               services = [svcWeb, svcFar, svcDns]\<rparr>"

text \<open>
  A second snapshot: a pod with the labels of the system ingress gateway, in a
  namespace where no service selects it.
\<close>

definition podIngress :: "Pod Instance" where
  "podIngress = \<lparr>Metadata = \<lparr>Namespace = ''istio-system'', Name = ''ingress-pod''\<rparr>,
                 Message = \<lparr>ObjectMeta = \<lparr>pod_Namespace = ''istio-system'',
                                          Labels = [''istio'' \<mapsto> ''ingressgateway'']\<rparr>\<rparr>\<rparr>"

definition snapshotIngress :: Context where
  "snapshotIngress = \<lparr>gateways = [gwSystem], pods = [podIngress], services = [svcWeb, svcDns]\<rparr>"

lemmas scenario_defs =
  selectorFromSet_def podGw_def podDb_def svcWeb_def svcFar_def svcDns_def serverOn_def
  portless_def gwApp_def gwSystem_def gwUnknown_def gwDb_def snapshot_def podIngress_def
  snapshotIngress_def initialState_def initialPorts_def index_def

lemmas analyzer_defs =
  findServicePorts_def newMap_def podVisitor_def serviceVisitor_def resolveServicePorts_def
  analyzeGateway_def gatewayVisitor_def Analyze_def Report_def present_def len_def
  uint32_of_int32_def int_of_uint32_def Let_def

section \<open>The loops of the analyzer\<close>

subsection \<open>Port maps\<close>

lemma mark_empty [simp]: "mark {} m = m"
  by (simp add: mark_def)

lemma mark_mark [simp]: "mark S (mark T m) = mark (T \<union> S) m"
  by (auto simp: mark_def fun_eq_iff)

lemma mark_upd: "mark S (m(k \<mapsto> True)) = mark (insert k S) m"
  by (auto simp: mark_def fun_eq_iff)

lemma dom_mark [simp]: "dom (mark S m) = S \<union> dom m"
  by (auto simp: mark_def dom_def)

lemma tcpPorts_Nil [simp]: "tcpPorts [] = {}"
  by (simp add: tcpPorts_def)

lemma tcpPorts_Cons [simp]:
  "tcpPorts (p # ps) =
     (if Protocol p = ''TCP'' then insert (uint32_of_int32 (Port p)) (tcpPorts ps) else tcpPorts ps)"
  by (auto simp: tcpPorts_def)

lemma deref_messages [simp]: "deref (st\<lparr>messages := ms\<rparr>) m = deref st m"
  by (cases m) simp_all

lemma deref_Report [simp]: "deref (Report col msg st) m = deref st m"
  by (simp add: Report_def)

subsection \<open>The search for the service ports\<close>

lemma addServicePorts_literal:
  "a < length (literals st) \<Longrightarrow>
   addServicePorts (LiteralRef a) ports st =
     st\<lparr>literals := (literals st)[a := mark (tcpPorts ports) (literals st ! a)]\<rparr>"
proof (induction ports arbitrary: st)
  case Nil
  then show ?case by simp
next
  case (Cons p ports)
  then show ?case
    by (simp add: mark_upd Un_commute)
qed

lemma ForEach_services:
  "a < length (literals st) \<Longrightarrow>
   ForEach svcs (serviceVisitor SelectorFromSet (LiteralRef a) pod) st =
     st\<lparr>literals := (literals st)[a := mark (podPorts SelectorFromSet svcs pod) (literals st ! a)]\<rparr>"
proof (induction svcs arbitrary: st)
  case Nil
  then show ?case by (simp add: podPorts_def selectedServices_def)
next
  case (Cons rSvc svcs)
  then show ?case
    by (auto simp: serviceVisitor_def Let_def addServicePorts_literal podPorts_def
        selectedServices_def Un_commute)
qed

lemma ForEach_pods:
  "a < length (literals st) \<Longrightarrow>
   ForEach ps (podVisitor SelectorFromSet c gwSelector (LiteralRef a)) (n, st) =
     (n + of_nat (length (filter (\<lambda>rPod. Matches gwSelector (Labels (ObjectMeta (Message rPod)))) ps)),
      st\<lparr>literals := (literals st)
             [a := mark (\<Union>rPod \<in> set (filter (\<lambda>rPod. Matches gwSelector (Labels (ObjectMeta (Message rPod)))) ps).
                           podPorts SelectorFromSet (services c) (Message rPod))
                     (literals st ! a)]\<rparr>)"
proof (induction ps arbitrary: n st)
  case Nil
  then show ?case by simp
next
  case (Cons rPod ps)
  then show ?case
    by (simp add: podVisitor_def Let_def ForEach_services Un_commute add.assoc)
qed

lemma findServicePorts_eq:
  "findServicePorts SelectorFromSet c r st =
     (LiteralRef (length (literals st)),
      of_nat (length (selectedPods SelectorFromSet c r)),
      st\<lparr>literals := literals st @ [mark (offeredPorts SelectorFromSet c r) Map.empty]\<rparr>)"
  by (simp add: findServicePorts_def newMap_def Let_def ForEach_pods selectedPods_def
      offeredPorts_def)

lemma offeredPorts_eq:
  "offeredPorts SelectorFromSet c r =
     {uint32_of_int32 (Port port) | rPod rSvc port.
        rPod \<in> set (pods c) \<and>
        Matches (SelectorFromSet (Selector (Message r))) (Labels (ObjectMeta (Message rPod))) \<and>
        rSvc \<in> set (services c) \<and>
        Namespace (Metadata rSvc) = pod_Namespace (ObjectMeta (Message rPod)) \<and>
        Matches (SelectorFromSet (svc_Selector (Message rSvc))) (Labels (ObjectMeta (Message rPod))) \<and>
        port \<in> set (Ports (Message rSvc)) \<and> Protocol port = ''TCP''}"
  unfolding offeredPorts_def podPorts_def selectedPods_def selectedServices_def tcpPorts_def
  by (simp only: set_filter) blast

subsection \<open>The counter of selected pods\<close>

text \<open>
  The counter is a 64-bit word, incremented once per selected pod. It is zero exactly
  when no pod is selected as long as the snapshot holds fewer than \<open>2 ^ 64\<close> pods, which
  every snapshot in memory does.
\<close>

lemma counter_zero_iff:
  fixes xs :: "'a list"
  assumes "length xs < 2 ^ 64"
  shows "(of_nat (length (filter P xs)) :: goint) = 0 \<longleftrightarrow> filter P xs = []"
proof -
  have "length (filter P xs) < 2 ^ 64"
    using assms length_filter_le [of P xs] by linarith
  then show ?thesis
    by (auto simp: word_of_nat_eq_0_iff dest: dvd_imp_le)
qed

lemma selectedPods_empty_iff:
  "selectedPods SelectorFromSet c r = [] \<longleftrightarrow>
     (\<forall>rPod \<in> set (pods c).
        \<not> Matches (SelectorFromSet (Selector (Message r))) (Labels (ObjectMeta (Message rPod))))"
  by (simp add: selectedPods_def filter_empty_conv)

lemma counter_nonzero:
  assumes "length (pods c) < 2 ^ 64"
    and "\<exists>rPod \<in> set (pods c).
           Matches (SelectorFromSet (Selector (Message r))) (Labels (ObjectMeta (Message rPod)))"
  shows "(of_nat (length (selectedPods SelectorFromSet c r)) :: goint) \<noteq> 0"
proof -
  from assms(2) have "selectedPods SelectorFromSet c r \<noteq> []"
    by (simp add: selectedPods_empty_iff)
  with assms(1) show ?thesis
    unfolding selectedPods_def by (simp only: counter_zero_iff not_False_eq_True)
qed

lemma counter_zero:
  assumes "\<forall>rPod \<in> set (pods c).
           \<not> Matches (SelectorFromSet (Selector (Message r))) (Labels (ObjectMeta (Message rPod)))"
  shows "(of_nat (length (selectedPods SelectorFromSet c r)) :: goint) = 0"
  using assms by (simp add: selectedPods_empty_iff [symmetric])

subsection \<open>The selector of the system ingress gateway\<close>

lemma singleton_map:
  assumes "card (dom m) = 1" and "m k = Some v"
  shows "m = [k \<mapsto> v]"
proof -
  from assms(1) obtain k' where k': "dom m = {k'}"
    by (rule card_1_singletonE)
  from assms(2) have "k \<in> dom m" by (rule domI)
  with k' have d: "dom m = {k}" by simp
  show ?thesis
  proof (rule ext)
    fix x
    show "m x = [k \<mapsto> v] x"
    proof (cases "x = k")
      case True
      with assms(2) show ?thesis by simp
    next
      case False
      with d have "x \<notin> dom m" by simp
      with False show ?thesis by (simp add: domIff)
    qed
  qed
qed

lemma index_eq_nonempty: "v \<noteq> [] \<Longrightarrow> index m k = v \<longleftrightarrow> m k = Some v"
  by (cases "m k") (auto simp: index_def)

lemma single_pair_iff:
  "len m \<noteq> 1 \<or> index m ''istio'' \<noteq> ''ingressgateway'' \<longleftrightarrow>
     m \<noteq> [''istio'' \<mapsto> ''ingressgateway'']"
proof -
  have ne: "''ingressgateway'' \<noteq> []" by simp
  have "m = [''istio'' \<mapsto> ''ingressgateway'']"
    if "len m = 1" and "index m ''istio'' = ''ingressgateway''"
    using that unfolding index_eq_nonempty [OF ne] len_def by (rule singleton_map)
  moreover have "len [''istio'' \<mapsto> ''ingressgateway''] = 1"
    by (simp add: len_def)
  moreover have "index [''istio'' \<mapsto> ''ingressgateway''] ''istio'' = ''ingressgateway''"
    by (simp add: index_def)
  ultimately show ?thesis by metis
qed

lemma resolveServicePorts_eq:
  "resolveServicePorts SelectorFromSet r servicePorts gwSelectorMatches st =
     (if gwSelectorMatches = 0 then
        if Selector (Message r) \<noteq> [''istio'' \<mapsto> ''ingressgateway'']
        then (None, Report IstioNetworkingV1Alpha3Gateways
                      (ReferencedResourceNotFound r ''selector''
                         (String (SelectorFromSet (Selector (Message r))))) st)
        else (Some DefaultIngressGatewayPortsRef, st)
      else (Some servicePorts, st))"
  unfolding resolveServicePorts_def Let_def single_pair_iff by (rule refl)

subsection \<open>The check of the servers, the gateway and the pass\<close>

lemma checkServers_eq:
  "checkServers r gwSelector servicePorts servers st =
     st\<lparr>messages := messages st @ portMessages r gwSelector (dom (deref st servicePorts)) servers\<rparr>"
proof (induction servers arbitrary: st)
  case Nil
  then show ?case by (simp add: portMessages_def)
next
  case (Cons server servers)
  show ?case
  proof (cases "srv_Port server")
    case None
    then show ?thesis using Cons by (simp add: portMessages_def)
  next
    case (Some port)
    then show ?thesis
      using Cons [of "Report IstioNetworkingV1Alpha3Gateways
          (GatewayPortNotOnWorkload r (String gwSelector) (int_of_uint32 (Number port))) st"]
        Cons [of st]
      by (auto simp: portMessages_def present_def Let_def Report_def cong: option.case_cong)
  qed
qed

lemma analyzeGateway_eq:
  "analyzeGateway SelectorFromSet c r st =
     st\<lparr>literals := literals st @ [mark (offeredPorts SelectorFromSet c r) Map.empty],
        messages := messages st @
          gatewayMessages SelectorFromSet c (dom (defaultIngressGatewayPorts st)) r\<rparr>"
  by (simp add: analyzeGateway_def findServicePorts_eq resolveServicePorts_eq checkServers_eq
      gatewayMessages_def Report_def Let_def del: fun_upd_apply)

lemma ForEach_gateways:
  "ForEach gs (gatewayVisitor SelectorFromSet c) st =
     st\<lparr>literals := literals st @ map (\<lambda>r. mark (offeredPorts SelectorFromSet c r) Map.empty) gs,
        messages := messages st @
          concat (map (gatewayMessages SelectorFromSet c (dom (defaultIngressGatewayPorts st))) gs)\<rparr>"
  by (induction gs arbitrary: st) (simp_all add: gatewayVisitor_def analyzeGateway_eq)

lemma selectedPods_gateways [simp]:
  "selectedPods SelectorFromSet (c\<lparr>gateways := gs\<rparr>) r = selectedPods SelectorFromSet c r"
  by (simp add: selectedPods_def)

lemma offeredPorts_gateways [simp]:
  "offeredPorts SelectorFromSet (c\<lparr>gateways := gs\<rparr>) r = offeredPorts SelectorFromSet c r"
  by (simp add: offeredPorts_def)

lemma gatewayMessages_gateways [simp]:
  "gatewayMessages SelectorFromSet (c\<lparr>gateways := gs\<rparr>) defaults r =
     gatewayMessages SelectorFromSet c defaults r"
  by (simp add: gatewayMessages_def Let_def cong: if_cong)

lemma analyzeGateway_messages:
  "messages (analyzeGateway SelectorFromSet c r st) =
     messages st @ gatewayMessages SelectorFromSet c (dom (defaultIngressGatewayPorts st)) r"
  by (simp add: analyzeGateway_eq)

lemma analyzeGateway_defaults:
  "defaultIngressGatewayPorts (analyzeGateway SelectorFromSet c r st) = defaultIngressGatewayPorts st"
  by (simp add: analyzeGateway_eq)

lemma Analyze_messages:
  "messages (Analyze SelectorFromSet c st) =
     messages st @
       concat (map (gatewayMessages SelectorFromSet c (dom (defaultIngressGatewayPorts st))) (gateways c))"
  by (simp add: Analyze_def ForEach_gateways)

lemma Analyze_defaults:
  "defaultIngressGatewayPorts (Analyze SelectorFromSet c st) = defaultIngressGatewayPorts st"
  by (simp add: Analyze_def ForEach_gateways)

subsection \<open>Port messages\<close>

lemma portMessages_append:
  "portMessages r gwSelector offered (xs @ ys) =
     portMessages r gwSelector offered xs @ portMessages r gwSelector offered ys"
  by (simp add: portMessages_def)

lemma portMessages_portless:
  "srv_Port server = None \<Longrightarrow>
   portMessages r gwSelector offered (server # ys) = portMessages r gwSelector offered ys"
  by (simp add: portMessages_def)

lemma portMessages_member:
  assumes "(col, GatewayPortNotOnWorkload r' s n) \<in> set (portMessages r gwSelector offered servers)"
  shows "\<exists>server \<in> set servers. \<exists>port. srv_Port server = Some port \<and> n = int_of_uint32 (Number port)"
  using assms
  by (auto simp: portMessages_def split: option.splits if_splits) metis

lemma selectedServices_other_namespace:
  assumes "Namespace (Metadata rSvc) \<noteq> pod_Namespace (ObjectMeta pod)"
  shows "selectedServices SelectorFromSet (xs @ rSvc # ys) pod =
           selectedServices SelectorFromSet (xs @ ys) pod"
  using assms by (simp add: selectedServices_def)

subsection \<open>The store\<close>

text \<open>
  An assignment through the reference to the default ports would change the table
  of the package variable: the store does not hide a write through an alias.
\<close>

lemma assign_through_alias:
  "deref (assign DefaultIngressGatewayPortsRef k v st) DefaultIngressGatewayPortsRef k = Some v"
  by simp

subsection \<open>The pass over the snapshot\<close>

lemma snapshot_messages:
  "messages (Analyze selectorFromSet snapshot initialState) =
     [(IstioNetworkingV1Alpha3Gateways, GatewayPortNotOnWorkload gwApp ''app=gw'' 443),
      (IstioNetworkingV1Alpha3Gateways, GatewayPortNotOnWorkload gwSystem ''istio=ingressgateway'' 8080),
      (IstioNetworkingV1Alpha3Gateways, ReferencedResourceNotFound gwUnknown ''selector'' ''app=unknown''),
      (IstioNetworkingV1Alpha3Gateways, GatewayPortNotOnWorkload gwDb ''app=db'' 80),
      (IstioNetworkingV1Alpha3Gateways, GatewayPortNotOnWorkload gwDb ''app=db'' 443)]"
  by (simp add: scenario_defs analyzer_defs)

section \<open>The claims\<close>

text \<open>
  Claim C1. For a gateway whose selector matches at least one pod of the snapshot, the
  port check runs on the map the search has filled (the fallback leaves it in place),
  and the keys of that map are exactly the port numbers, converted to \<^verbatim>\<open>uint32\<close>, of
  the TCP entries of every service that lies in the namespace of a matched pod and
  whose selector matches that pod's labels: a union over the matched pods and their
  services. Entries of another protocol add nothing.
\<close>

theorem servicePorts_union_of_selecting_services:
  assumes "length (pods c) < 2 ^ 64"
    and "\<exists>rPod \<in> set (pods c).
           Matches (SelectorFromSet (Selector (Message r))) (Labels (ObjectMeta (Message rPod)))"
    and "findServicePorts SelectorFromSet c r st = (servicePorts, gwSelectorMatches, stFound)"
  shows "resolveServicePorts SelectorFromSet r servicePorts gwSelectorMatches stFound =
           (Some servicePorts, stFound) \<and>
         dom (deref stFound servicePorts) =
           {uint32_of_int32 (Port port) | rPod rSvc port.
              rPod \<in> set (pods c) \<and>
              Matches (SelectorFromSet (Selector (Message r))) (Labels (ObjectMeta (Message rPod))) \<and>
              rSvc \<in> set (services c) \<and>
              Namespace (Metadata rSvc) = pod_Namespace (ObjectMeta (Message rPod)) \<and>
              Matches (SelectorFromSet (svc_Selector (Message rSvc))) (Labels (ObjectMeta (Message rPod))) \<and>
              port \<in> set (Ports (Message rSvc)) \<and> Protocol port = ''TCP''}"
proof -
  from assms(3) have sp: "servicePorts = LiteralRef (length (literals st))"
    and n: "gwSelectorMatches = of_nat (length (selectedPods SelectorFromSet c r))"
    and stFound: "stFound = st\<lparr>literals := literals st @ [mark (offeredPorts SelectorFromSet c r) Map.empty]\<rparr>"
    by (simp_all add: findServicePorts_eq)
  have "(of_nat (length (selectedPods SelectorFromSet c r)) :: goint) \<noteq> 0"
    using assms(1,2) by (rule counter_nonzero)
  with n have "gwSelectorMatches \<noteq> 0" by simp
  then have "resolveServicePorts SelectorFromSet r servicePorts gwSelectorMatches stFound =
      (Some servicePorts, stFound)"
    by (simp add: resolveServicePorts_eq)
  moreover have "dom (deref stFound servicePorts) = offeredPorts SelectorFromSet c r"
    by (simp add: sp stFound)
  ultimately show ?thesis
    by (simp only: offeredPorts_eq)
qed

text \<open>
  In the snapshot, the gateway \<open>gwApp\<close> selects one pod; the service of the pod's
  namespace offers TCP port 80 and UDP port 53, the service of the other namespace
  offers TCP port 9000: the map holds port 80 alone.
\<close>

theorem servicePorts_union_witness:
  "resolveServicePorts selectorFromSet gwApp (LiteralRef 0) 1
       (initialState\<lparr>literals := [[80 \<mapsto> True]]\<rparr>) =
     (Some (LiteralRef 0), initialState\<lparr>literals := [[80 \<mapsto> True]]\<rparr>) \<and>
   dom (deref (initialState\<lparr>literals := [[80 \<mapsto> True]]\<rparr>) (LiteralRef 0)) = {80}"
proof -
  have bound: "length (pods snapshot) < 2 ^ 64"
    by (simp add: snapshot_def)
  have selected: "\<exists>rPod \<in> set (pods snapshot).
      Matches (selectorFromSet (Selector (Message gwApp))) (Labels (ObjectMeta (Message rPod)))"
    by (simp add: scenario_defs)
  have found: "findServicePorts selectorFromSet snapshot gwApp initialState =
      (LiteralRef 0, 1, initialState\<lparr>literals := [[80 \<mapsto> True]]\<rparr>)"
    by (simp add: scenario_defs analyzer_defs)
  show ?thesis
    using servicePorts_union_of_selecting_services
      [where SelectorFromSet = selectorFromSet and c = snapshot and r = gwApp,
        OF bound selected found]
    by (simp add: initialState_def)
qed

text \<open>
  Claim C2. When the selector of a gateway matches no pod of the snapshot and is not
  the single pair \<^verbatim>\<open>istio: ingressgateway\<close>, the evaluation of the gateway adds
  exactly one message: \<open>ReferencedResourceNotFound\<close> on the gateway, with the field
  \<^verbatim>\<open>selector\<close> and the string form of the selector. No \<open>GatewayPortNotOnWorkload\<close>
  follows, whatever the servers of the gateway declare.
\<close>

theorem no_workload_reports_missing_resource:
  assumes "\<forall>rPod \<in> set (pods c).
             \<not> Matches (SelectorFromSet (Selector (Message r))) (Labels (ObjectMeta (Message rPod)))"
    and "Selector (Message r) \<noteq> [''istio'' \<mapsto> ''ingressgateway'']"
  shows "messages (analyzeGateway SelectorFromSet c r st) =
           messages st @
             [(IstioNetworkingV1Alpha3Gateways,
               ReferencedResourceNotFound r ''selector''
                 (String (SelectorFromSet (Selector (Message r)))))]"
proof -
  have "(of_nat (length (selectedPods SelectorFromSet c r)) :: goint) = 0"
    using assms(1) by (rule counter_zero)
  with assms(2) show ?thesis
    by (simp add: analyzeGateway_eq gatewayMessages_def)
qed

text \<open>
  The selector of \<open>gwUnknown\<close> matches neither pod of the snapshot; its server on port
  80 is not looked at.
\<close>

theorem no_workload_reports_missing_resource_witness:
  "messages (analyzeGateway selectorFromSet snapshot gwUnknown initialState) =
     [(IstioNetworkingV1Alpha3Gateways,
       ReferencedResourceNotFound gwUnknown ''selector'' ''app=unknown'')]"
proof -
  have unmatched: "\<forall>rPod \<in> set (pods snapshot).
      \<not> Matches (selectorFromSet (Selector (Message gwUnknown))) (Labels (ObjectMeta (Message rPod)))"
    by (simp add: scenario_defs)
  have other: "Selector (Message gwUnknown) \<noteq> [''istio'' \<mapsto> ''ingressgateway'']"
  proof
    assume "Selector (Message gwUnknown) = [''istio'' \<mapsto> ''ingressgateway'']"
    then have "Selector (Message gwUnknown) ''app'' = [''istio'' \<mapsto> ''ingressgateway''] ''app''"
      by (rule arg_cong)
    then show False by (simp add: gwUnknown_def)
  qed
  show ?thesis
    using no_workload_reports_missing_resource
      [where SelectorFromSet = selectorFromSet and c = snapshot and r = gwUnknown
         and st = initialState, OF unmatched other]
    by (simp add: scenario_defs)
qed

text \<open>
  Claim C3. When the selector of a gateway matches no pod and is exactly the single
  pair \<^verbatim>\<open>istio: ingressgateway\<close>, the servers are checked against the default ports
  table, whose keys are 80, 443, 31400 and 15443: a server on one of these ports gets
  no message, a server on any other port gets \<open>GatewayPortNotOnWorkload\<close>, and nothing
  else is reported. The table is the one the package initialises.
\<close>

theorem system_selector_checks_default_ports:
  assumes "\<forall>rPod \<in> set (pods c).
             \<not> Matches (SelectorFromSet (Selector (Message r))) (Labels (ObjectMeta (Message rPod)))"
    and "Selector (Message r) = [''istio'' \<mapsto> ''ingressgateway'']"
    and "defaultIngressGatewayPorts st = initialPorts"
  shows "messages (analyzeGateway SelectorFromSet c r st) =
           messages st @
             concat (map (\<lambda>server.
                case srv_Port server of
                  None \<Rightarrow> []
                | Some port \<Rightarrow>
                    if Number port \<in> {80, 443, 31400, 15443} then []
                    else [(IstioNetworkingV1Alpha3Gateways,
                           GatewayPortNotOnWorkload r
                             (String (SelectorFromSet (Selector (Message r))))
                             (int_of_uint32 (Number port)))])
               (Servers (Message r)))"
proof -
  have "(of_nat (length (selectedPods SelectorFromSet c r)) :: goint) = 0"
    using assms(1) by (rule counter_zero)
  moreover have "dom initialPorts = {80, 443, 31400, 15443}"
    by (auto simp: initialPorts_def)
  ultimately show ?thesis
    using assms(2,3)
    by (simp add: analyzeGateway_eq gatewayMessages_def portMessages_def del: fun_upd_apply
        cong: option.case_cong if_cong)
qed

text \<open>
  The gateway \<open>gwSystem\<close> declares the ports 31400 and 8080: only 8080 is reported.
\<close>

theorem system_selector_checks_default_ports_witness:
  "messages (analyzeGateway selectorFromSet snapshot gwSystem initialState) =
     [(IstioNetworkingV1Alpha3Gateways,
       GatewayPortNotOnWorkload gwSystem ''istio=ingressgateway'' 8080)]"
proof -
  have unmatched: "\<forall>rPod \<in> set (pods snapshot).
      \<not> Matches (selectorFromSet (Selector (Message gwSystem))) (Labels (ObjectMeta (Message rPod)))"
    by (simp add: scenario_defs)
  have system: "Selector (Message gwSystem) = [''istio'' \<mapsto> ''ingressgateway'']"
    by (simp add: gwSystem_def)
  have table: "defaultIngressGatewayPorts initialState = initialPorts"
    by (simp add: initialState_def)
  show ?thesis
    using system_selector_checks_default_ports
      [where SelectorFromSet = selectorFromSet and c = snapshot and r = gwSystem
         and st = initialState, OF unmatched system table]
    by (simp add: scenario_defs int_of_uint32_def)
qed

text \<open>
  Claim C4. Once the service ports of a gateway are resolved (the evaluation did not
  return early), every server of the gateway is checked, in order: a server gets a
  \<open>GatewayPortNotOnWorkload\<close> message if and only if it declares a port number that
  is not a key of the resolved map. The messages already reported do not stop the
  loop and do not change the map.
\<close>

theorem every_server_checked_against_servicePorts:
  assumes "findServicePorts SelectorFromSet c r st = (servicePorts, gwSelectorMatches, stFound)"
    and "resolveServicePorts SelectorFromSet r servicePorts gwSelectorMatches stFound =
           (Some resolved, stResolved)"
  shows "analyzeGateway SelectorFromSet c r st =
           stResolved\<lparr>messages := messages stResolved @
             concat (map (\<lambda>server.
                case srv_Port server of
                  None \<Rightarrow> []
                | Some port \<Rightarrow>
                    if Number port \<in> dom (deref stResolved resolved) then []
                    else [(IstioNetworkingV1Alpha3Gateways,
                           GatewayPortNotOnWorkload r
                             (String (SelectorFromSet (Selector (Message r))))
                             (int_of_uint32 (Number port)))])
               (Servers (Message r)))\<rparr>"
  using assms
  by (simp add: analyzeGateway_def Let_def checkServers_eq portMessages_def)

text \<open>
  The servers of \<open>gwApp\<close> are on port 443, without a port, and on port 80, and the
  service ports are port 80: the first server is reported and the loop goes on to
  the last one.
\<close>

theorem every_server_checked_witness:
  "analyzeGateway selectorFromSet snapshot gwApp initialState =
     initialState
       \<lparr>literals := [[80 \<mapsto> True]],
        messages := [(IstioNetworkingV1Alpha3Gateways,
                      GatewayPortNotOnWorkload gwApp ''app=gw'' 443)]\<rparr>"
proof -
  have found: "findServicePorts selectorFromSet snapshot gwApp initialState =
      (LiteralRef 0, 1, initialState\<lparr>literals := [[80 \<mapsto> True]]\<rparr>)"
    by (simp add: scenario_defs analyzer_defs)
  have resolved: "resolveServicePorts selectorFromSet gwApp (LiteralRef 0) 1
      (initialState\<lparr>literals := [[80 \<mapsto> True]]\<rparr>) =
      (Some (LiteralRef 0), initialState\<lparr>literals := [[80 \<mapsto> True]]\<rparr>)"
    by (simp add: resolveServicePorts_def)
  show ?thesis
    using every_server_checked_against_servicePorts
      [where SelectorFromSet = selectorFromSet and c = snapshot and r = gwApp
         and st = initialState, OF found resolved]
    by (simp add: scenario_defs int_of_uint32_def)
qed

text \<open>
  Claim C5. A server without a port number never produces a message. The check of a
  list of servers ends in the same state with or without such a server, wherever it
  stands in the list; and every \<open>GatewayPortNotOnWorkload\<close> message that the
  evaluation of a gateway adds carries the port number that one of its servers
  declares.
\<close>

theorem portless_server_is_skipped:
  "(srv_Port server = None \<longrightarrow>
      checkServers r gwSelector servicePorts (xs @ server # ys) st =
        checkServers r gwSelector servicePorts (xs @ ys) st) \<and>
   ((col, GatewayPortNotOnWorkload r' s n)
        \<in> set (drop (length (messages st)) (messages (analyzeGateway SelectorFromSet c r st))) \<longrightarrow>
      (\<exists>server \<in> set (Servers (Message r)). \<exists>port.
          srv_Port server = Some port \<and> n = int_of_uint32 (Number port)))"
proof (intro conjI impI)
  assume "srv_Port server = None"
  then show "checkServers r gwSelector servicePorts (xs @ server # ys) st =
      checkServers r gwSelector servicePorts (xs @ ys) st"
    by (simp add: checkServers_eq portMessages_append portMessages_portless)
next
  assume "(col, GatewayPortNotOnWorkload r' s n)
      \<in> set (drop (length (messages st)) (messages (analyzeGateway SelectorFromSet c r st)))"
  then have "(col, GatewayPortNotOnWorkload r' s n)
      \<in> set (gatewayMessages SelectorFromSet c (dom (defaultIngressGatewayPorts st)) r)"
    by (simp add: analyzeGateway_eq)
  then obtain offered where
    "(col, GatewayPortNotOnWorkload r' s n)
       \<in> set (portMessages r (SelectorFromSet (Selector (Message r))) offered (Servers (Message r)))"
    by (auto simp: gatewayMessages_def Let_def split: if_splits)
  then show "\<exists>server \<in> set (Servers (Message r)). \<exists>port.
      srv_Port server = Some port \<and> n = int_of_uint32 (Number port)"
    by (rule portMessages_member)
qed

text \<open>
  The second server of \<open>gwApp\<close> has no port; the one port message of \<open>gwApp\<close> is for
  port 443, which its first server declares.
\<close>

theorem portless_server_is_skipped_witness:
  "checkServers gwApp (selectorFromSet [''app'' \<mapsto> ''gw'']) (LiteralRef 0)
       ([serverOn 443] @ portless # [serverOn 80]) (initialState\<lparr>literals := [[80 \<mapsto> True]]\<rparr>) =
     checkServers gwApp (selectorFromSet [''app'' \<mapsto> ''gw'']) (LiteralRef 0)
       ([serverOn 443] @ [serverOn 80]) (initialState\<lparr>literals := [[80 \<mapsto> True]]\<rparr>) \<and>
   (\<exists>server \<in> set (Servers (Message gwApp)). \<exists>port.
       srv_Port server = Some port \<and> (443 :: goint) = int_of_uint32 (Number port))"
proof -
  have none: "srv_Port portless = None"
    by (simp add: portless_def)
  have emitted: "(IstioNetworkingV1Alpha3Gateways, GatewayPortNotOnWorkload gwApp ''app=gw'' 443)
      \<in> set (drop (length (messages initialState))
           (messages (analyzeGateway selectorFromSet snapshot gwApp initialState)))"
    by (simp add: scenario_defs analyzer_defs)
  show ?thesis
    using portless_server_is_skipped
      [where SelectorFromSet = selectorFromSet and c = snapshot and r = gwApp
         and st = initialState and server = portless and col = IstioNetworkingV1Alpha3Gateways
         and r' = gwApp and s = "''app=gw''" and n = 443]
      portless_server_is_skipped
      [where server = portless and r = gwApp and gwSelector = "selectorFromSet [''app'' \<mapsto> ''gw'']"
         and servicePorts = "LiteralRef 0" and xs = "[serverOn 443]" and ys = "[serverOn 80]"
         and st = "initialState\<lparr>literals := [[80 \<mapsto> True]]\<rparr>"]
      none emitted
    by blast
qed

text \<open>
  Claim C6. A service of another namespace than the pod's adds no port, whether its
  selector matches the pod or not: the visitor of the services leaves the state as
  it is. The search for the service ports of a gateway has the same result with or
  without a service whose namespace is the namespace of no matched pod.
\<close>

theorem other_namespace_service_adds_nothing:
  "(Namespace (Metadata rSvc) \<noteq> pod_Namespace (ObjectMeta pod) \<longrightarrow>
      serviceVisitor SelectorFromSet servicePorts pod rSvc st = (True, st)) \<and>
   ((\<forall>rPod \<in> set (pods c).
        Matches (SelectorFromSet (Selector (Message r))) (Labels (ObjectMeta (Message rPod))) \<longrightarrow>
        Namespace (Metadata rSvc) \<noteq> pod_Namespace (ObjectMeta (Message rPod))) \<longrightarrow>
      findServicePorts SelectorFromSet (c\<lparr>services := xs @ rSvc # ys\<rparr>) r st =
        findServicePorts SelectorFromSet (c\<lparr>services := xs @ ys\<rparr>) r st)"
proof (intro conjI impI)
  assume "Namespace (Metadata rSvc) \<noteq> pod_Namespace (ObjectMeta pod)"
  then show "serviceVisitor SelectorFromSet servicePorts pod rSvc st = (True, st)"
    by (simp add: serviceVisitor_def)
next
  assume far: "\<forall>rPod \<in> set (pods c).
      Matches (SelectorFromSet (Selector (Message r))) (Labels (ObjectMeta (Message rPod))) \<longrightarrow>
      Namespace (Metadata rSvc) \<noteq> pod_Namespace (ObjectMeta (Message rPod))"
  have pods_eq: "selectedPods SelectorFromSet (c\<lparr>services := svcs\<rparr>) r = selectedPods SelectorFromSet c r"
    for svcs
    by (simp add: selectedPods_def)
  have "podPorts SelectorFromSet (xs @ rSvc # ys) (Message rPod) =
      podPorts SelectorFromSet (xs @ ys) (Message rPod)"
    if "rPod \<in> set (selectedPods SelectorFromSet c r)" for rPod
    using that far by (simp add: podPorts_def selectedPods_def selectedServices_other_namespace)
  then have "offeredPorts SelectorFromSet (c\<lparr>services := xs @ rSvc # ys\<rparr>) r =
      offeredPorts SelectorFromSet (c\<lparr>services := xs @ ys\<rparr>) r"
    by (simp add: offeredPorts_def pods_eq)
  then show "findServicePorts SelectorFromSet (c\<lparr>services := xs @ rSvc # ys\<rparr>) r st =
      findServicePorts SelectorFromSet (c\<lparr>services := xs @ ys\<rparr>) r st"
    by (simp add: findServicePorts_eq pods_eq)
qed

text \<open>
  The service \<open>svcFar\<close> has the selector of \<open>svcWeb\<close>, which matches the pod \<open>podGw\<close>,
  and lies in another namespace: its TCP port 9000 is not added.
\<close>

theorem other_namespace_service_witness:
  "serviceVisitor selectorFromSet (LiteralRef 0) (Message podGw) svcFar
       (initialState\<lparr>literals := [Map.empty]\<rparr>) =
     (True, initialState\<lparr>literals := [Map.empty]\<rparr>) \<and>
   findServicePorts selectorFromSet (snapshot\<lparr>services := [svcWeb] @ svcFar # [svcDns]\<rparr>) gwApp
       initialState =
     findServicePorts selectorFromSet (snapshot\<lparr>services := [svcWeb] @ [svcDns]\<rparr>) gwApp initialState"
proof -
  have far: "Namespace (Metadata svcFar) \<noteq> pod_Namespace (ObjectMeta (Message podGw))"
    by (simp add: scenario_defs)
  have all_far: "\<forall>rPod \<in> set (pods snapshot).
      Matches (selectorFromSet (Selector (Message gwApp))) (Labels (ObjectMeta (Message rPod))) \<longrightarrow>
      Namespace (Metadata svcFar) \<noteq> pod_Namespace (ObjectMeta (Message rPod))"
    by (simp add: scenario_defs)
  show ?thesis
    using other_namespace_service_adds_nothing
      [where SelectorFromSet = selectorFromSet and rSvc = svcFar and pod = "Message podGw"
         and servicePorts = "LiteralRef 0" and st = "initialState\<lparr>literals := [Map.empty]\<rparr>"]
      other_namespace_service_adds_nothing
      [where SelectorFromSet = selectorFromSet and rSvc = svcFar and c = snapshot and r = gwApp
         and xs = "[svcWeb]" and ys = "[svcDns]" and st = initialState]
      far all_far
    by blast
qed

text \<open>
  Claim C7. The analysis is a function of the snapshot, and a repeated pass reports
  the same messages again: a pass only appends messages, and a second pass over the
  unchanged snapshot, started in the state the first pass leaves, appends the very
  list of messages the first pass appended (same kinds, resources and details, in
  the same order). The search for the service ports of a gateway builds the same map
  and the same counter from any two states, so building it twice gives the same set.
\<close>

theorem analysis_is_repeatable:
  "messages (Analyze SelectorFromSet c st) =
     messages st @ drop (length (messages st)) (messages (Analyze SelectorFromSet c st)) \<and>
   messages (Analyze SelectorFromSet c (Analyze SelectorFromSet c st)) =
     messages (Analyze SelectorFromSet c st) @
       drop (length (messages st)) (messages (Analyze SelectorFromSet c st)) \<and>
   (findServicePorts SelectorFromSet c r st = (servicePorts, gwSelectorMatches, stFound) \<longrightarrow>
    findServicePorts SelectorFromSet c r st' = (servicePorts', gwSelectorMatches', stFound') \<longrightarrow>
      deref stFound' servicePorts' = deref stFound servicePorts \<and> gwSelectorMatches' = gwSelectorMatches)"
proof (intro conjI impI)
  show "messages (Analyze SelectorFromSet c st) =
      messages st @ drop (length (messages st)) (messages (Analyze SelectorFromSet c st))"
    by (simp add: Analyze_messages)
  show "messages (Analyze SelectorFromSet c (Analyze SelectorFromSet c st)) =
      messages (Analyze SelectorFromSet c st) @
        drop (length (messages st)) (messages (Analyze SelectorFromSet c st))"
    by (simp add: Analyze_messages [of SelectorFromSet c "Analyze SelectorFromSet c st"]
        Analyze_defaults) (simp add: Analyze_messages)
next
  assume a: "findServicePorts SelectorFromSet c r st = (servicePorts, gwSelectorMatches, stFound)"
    and b: "findServicePorts SelectorFromSet c r st' = (servicePorts', gwSelectorMatches', stFound')"
  from a have "deref stFound servicePorts = mark (offeredPorts SelectorFromSet c r) Map.empty"
    by (auto simp: findServicePorts_eq)
  moreover from b have "deref stFound' servicePorts' = mark (offeredPorts SelectorFromSet c r) Map.empty"
    by (auto simp: findServicePorts_eq)
  ultimately show "deref stFound' servicePorts' = deref stFound servicePorts" by simp
  from a b show "gwSelectorMatches' = gwSelectorMatches"
    by (simp add: findServicePorts_eq)
qed

text \<open>
  Two passes over the snapshot report its five messages twice, and the map built
  for \<open>gwApp\<close> the second time equals the one built the first time.
\<close>

theorem analysis_is_repeatable_witness:
  "messages (Analyze selectorFromSet snapshot (Analyze selectorFromSet snapshot initialState)) =
     [(IstioNetworkingV1Alpha3Gateways, GatewayPortNotOnWorkload gwApp ''app=gw'' 443),
      (IstioNetworkingV1Alpha3Gateways, GatewayPortNotOnWorkload gwSystem ''istio=ingressgateway'' 8080),
      (IstioNetworkingV1Alpha3Gateways, ReferencedResourceNotFound gwUnknown ''selector'' ''app=unknown''),
      (IstioNetworkingV1Alpha3Gateways, GatewayPortNotOnWorkload gwDb ''app=db'' 80),
      (IstioNetworkingV1Alpha3Gateways, GatewayPortNotOnWorkload gwDb ''app=db'' 443),
      (IstioNetworkingV1Alpha3Gateways, GatewayPortNotOnWorkload gwApp ''app=gw'' 443),
      (IstioNetworkingV1Alpha3Gateways, GatewayPortNotOnWorkload gwSystem ''istio=ingressgateway'' 8080),
      (IstioNetworkingV1Alpha3Gateways, ReferencedResourceNotFound gwUnknown ''selector'' ''app=unknown''),
      (IstioNetworkingV1Alpha3Gateways, GatewayPortNotOnWorkload gwDb ''app=db'' 80),
      (IstioNetworkingV1Alpha3Gateways, GatewayPortNotOnWorkload gwDb ''app=db'' 443)] \<and>
   deref (initialState\<lparr>literals := [[80 \<mapsto> True], [80 \<mapsto> True]]\<rparr>) (LiteralRef 1) =
     deref (initialState\<lparr>literals := [[80 \<mapsto> True]]\<rparr>) (LiteralRef 0)"
proof -
  have first: "findServicePorts selectorFromSet snapshot gwApp initialState =
      (LiteralRef 0, 1, initialState\<lparr>literals := [[80 \<mapsto> True]]\<rparr>)"
    by (simp add: scenario_defs analyzer_defs)
  have second: "findServicePorts selectorFromSet snapshot gwApp
        (initialState\<lparr>literals := [[80 \<mapsto> True]]\<rparr>) =
      (LiteralRef 1, 1, initialState\<lparr>literals := [[80 \<mapsto> True], [80 \<mapsto> True]]\<rparr>)"
    by (simp add: scenario_defs analyzer_defs)
  have start: "messages initialState = []"
    by (simp add: initialState_def)
  show ?thesis
    using analysis_is_repeatable
      [where SelectorFromSet = selectorFromSet and c = snapshot and st = initialState
         and r = gwApp and st' = "initialState\<lparr>literals := [[80 \<mapsto> True]]\<rparr>"
         and servicePorts = "LiteralRef 0" and gwSelectorMatches = 1
         and stFound = "initialState\<lparr>literals := [[80 \<mapsto> True]]\<rparr>"
         and servicePorts' = "LiteralRef 1" and gwSelectorMatches' = 1
         and stFound' = "initialState\<lparr>literals := [[80 \<mapsto> True], [80 \<mapsto> True]]\<rparr>"]
      first second
    unfolding snapshot_messages start by simp
qed

text \<open>
  Claim C8. The visitor of the gateways always answers that the pass continues; the
  evaluation of a gateway is the same whatever gateways the snapshot holds; and the
  messages of a pass are the messages of its gateways, one gateway after the other:
  for each gateway, the messages that its evaluation adds when it is the only
  gateway of the snapshot and the evaluation starts in the state before the pass,
  with a map and a counter of its own. What one gateway reports depends on no other
  gateway, and a report never ends the pass.
\<close>

theorem gateways_are_evaluated_independently:
  "fst (gatewayVisitor SelectorFromSet c r st) = True \<and>
   analyzeGateway SelectorFromSet (c\<lparr>gateways := gs\<rparr>) r st = analyzeGateway SelectorFromSet c r st \<and>
   messages (Analyze SelectorFromSet c st) =
     messages st @
       concat (map (\<lambda>r. drop (length (messages st))
                            (messages (analyzeGateway SelectorFromSet (c\<lparr>gateways := [r]\<rparr>) r st)))
                 (gateways c))"
proof (intro conjI)
  show "fst (gatewayVisitor SelectorFromSet c r st) = True"
    by (simp add: gatewayVisitor_def)
  show "analyzeGateway SelectorFromSet (c\<lparr>gateways := gs\<rparr>) r st =
      analyzeGateway SelectorFromSet c r st"
    by (simp add: analyzeGateway_eq)
  have "drop (length (messages st))
        (messages (analyzeGateway SelectorFromSet (c\<lparr>gateways := [g]\<rparr>) g st)) =
      gatewayMessages SelectorFromSet c (dom (defaultIngressGatewayPorts st)) g" for g
    by (simp add: analyzeGateway_messages)
  then show "messages (Analyze SelectorFromSet c st) =
      messages st @
        concat (map (\<lambda>r. drop (length (messages st))
                             (messages (analyzeGateway SelectorFromSet (c\<lparr>gateways := [r]\<rparr>) r st)))
                  (gateways c))"
    by (simp add: Analyze_messages)
qed

text \<open>
  The messages of the pass over the four gateways of the snapshot, from the messages
  of each gateway evaluated alone.
\<close>

theorem gateways_are_evaluated_independently_witness:
  "messages (Analyze selectorFromSet snapshot initialState) =
     [(IstioNetworkingV1Alpha3Gateways, GatewayPortNotOnWorkload gwApp ''app=gw'' 443),
      (IstioNetworkingV1Alpha3Gateways, GatewayPortNotOnWorkload gwSystem ''istio=ingressgateway'' 8080),
      (IstioNetworkingV1Alpha3Gateways, ReferencedResourceNotFound gwUnknown ''selector'' ''app=unknown''),
      (IstioNetworkingV1Alpha3Gateways, GatewayPortNotOnWorkload gwDb ''app=db'' 80),
      (IstioNetworkingV1Alpha3Gateways, GatewayPortNotOnWorkload gwDb ''app=db'' 443)]"
proof -
  have alone:
    "messages (analyzeGateway selectorFromSet (snapshot\<lparr>gateways := [gwApp]\<rparr>) gwApp initialState) =
       [(IstioNetworkingV1Alpha3Gateways, GatewayPortNotOnWorkload gwApp ''app=gw'' 443)]"
    "messages (analyzeGateway selectorFromSet (snapshot\<lparr>gateways := [gwSystem]\<rparr>) gwSystem initialState) =
       [(IstioNetworkingV1Alpha3Gateways, GatewayPortNotOnWorkload gwSystem ''istio=ingressgateway'' 8080)]"
    "messages (analyzeGateway selectorFromSet (snapshot\<lparr>gateways := [gwUnknown]\<rparr>) gwUnknown initialState) =
       [(IstioNetworkingV1Alpha3Gateways, ReferencedResourceNotFound gwUnknown ''selector'' ''app=unknown'')]"
    "messages (analyzeGateway selectorFromSet (snapshot\<lparr>gateways := [gwDb]\<rparr>) gwDb initialState) =
       [(IstioNetworkingV1Alpha3Gateways, GatewayPortNotOnWorkload gwDb ''app=db'' 80),
        (IstioNetworkingV1Alpha3Gateways, GatewayPortNotOnWorkload gwDb ''app=db'' 443)]"
    by (simp_all add: scenario_defs analyzer_defs)
  have start: "messages initialState = []"
    by (simp add: initialState_def)
  have gws: "gateways snapshot = [gwApp, gwSystem, gwUnknown, gwDb]"
    by (simp add: snapshot_def)
  show ?thesis
    using gateways_are_evaluated_independently
      [where SelectorFromSet = selectorFromSet and c = snapshot and st = initialState]
    by (simp add: alone start gws)
qed

text \<open>
  Claim C9. The fallback looks at the counter of matched pods, not at the map. For a
  gateway with a matched pod such that no service of a matched pod's namespace that
  selects the pod offers a TCP port, the map stays empty, the default ports do not
  take its place, and every server that declares a port number is reported.
\<close>

theorem empty_servicePorts_without_fallback:
  assumes "length (pods c) < 2 ^ 64"
    and "\<exists>rPod \<in> set (pods c).
           Matches (SelectorFromSet (Selector (Message r))) (Labels (ObjectMeta (Message rPod)))"
    and "\<forall>rPod \<in> set (pods c). \<forall>rSvc \<in> set (services c). \<forall>port \<in> set (Ports (Message rSvc)).
           Matches (SelectorFromSet (Selector (Message r))) (Labels (ObjectMeta (Message rPod))) \<and>
           Namespace (Metadata rSvc) = pod_Namespace (ObjectMeta (Message rPod)) \<and>
           Matches (SelectorFromSet (svc_Selector (Message rSvc))) (Labels (ObjectMeta (Message rPod)))
           \<longrightarrow> Protocol port \<noteq> ''TCP''"
    and "findServicePorts SelectorFromSet c r st = (servicePorts, gwSelectorMatches, stFound)"
  shows "deref stFound servicePorts = Map.empty \<and>
         resolveServicePorts SelectorFromSet r servicePorts gwSelectorMatches stFound =
           (Some servicePorts, stFound) \<and>
         messages (analyzeGateway SelectorFromSet c r st) =
           messages st @
             concat (map (\<lambda>server.
                case srv_Port server of
                  None \<Rightarrow> []
                | Some port \<Rightarrow>
                    [(IstioNetworkingV1Alpha3Gateways,
                      GatewayPortNotOnWorkload r
                        (String (SelectorFromSet (Selector (Message r))))
                        (int_of_uint32 (Number port)))])
               (Servers (Message r)))"
proof -
  have none: "offeredPorts SelectorFromSet c r = {}"
    unfolding offeredPorts_eq using assms(3) by blast
  have nonzero: "(of_nat (length (selectedPods SelectorFromSet c r)) :: goint) \<noteq> 0"
    using assms(1,2) by (rule counter_nonzero)
  from assms(4) have sp: "servicePorts = LiteralRef (length (literals st))"
    and n: "gwSelectorMatches = of_nat (length (selectedPods SelectorFromSet c r))"
    and found: "stFound = st\<lparr>literals := literals st @ [Map.empty]\<rparr>"
    by (simp_all add: findServicePorts_eq none)
  have "deref stFound servicePorts = Map.empty"
    by (simp add: sp found)
  moreover have "resolveServicePorts SelectorFromSet r servicePorts gwSelectorMatches stFound =
      (Some servicePorts, stFound)"
    using nonzero n by (simp add: resolveServicePorts_eq)
  moreover have "messages (analyzeGateway SelectorFromSet c r st) =
      messages st @ portMessages r (SelectorFromSet (Selector (Message r))) {} (Servers (Message r))"
    using nonzero by (simp add: analyzeGateway_messages gatewayMessages_def none)
  ultimately show ?thesis
    by (simp add: portMessages_def cong: option.case_cong)
qed

text \<open>
  In the second snapshot the selector of \<open>gwSystem\<close> matches a pod that no service
  selects: both its servers are reported, also the one on port 31400, a default port.
\<close>

theorem empty_servicePorts_without_fallback_witness:
  "deref (initialState\<lparr>literals := [Map.empty]\<rparr>) (LiteralRef 0) = Map.empty \<and>
   resolveServicePorts selectorFromSet gwSystem (LiteralRef 0) 1
       (initialState\<lparr>literals := [Map.empty]\<rparr>) =
     (Some (LiteralRef 0), initialState\<lparr>literals := [Map.empty]\<rparr>) \<and>
   messages (analyzeGateway selectorFromSet snapshotIngress gwSystem initialState) =
     [(IstioNetworkingV1Alpha3Gateways, GatewayPortNotOnWorkload gwSystem ''istio=ingressgateway'' 31400),
      (IstioNetworkingV1Alpha3Gateways, GatewayPortNotOnWorkload gwSystem ''istio=ingressgateway'' 8080)]"
proof -
  have bound: "length (pods snapshotIngress) < 2 ^ 64"
    by (simp add: snapshotIngress_def)
  have selected: "\<exists>rPod \<in> set (pods snapshotIngress).
      Matches (selectorFromSet (Selector (Message gwSystem))) (Labels (ObjectMeta (Message rPod)))"
    by (simp add: scenario_defs snapshotIngress_def podIngress_def)
  have no_tcp: "\<forall>rPod \<in> set (pods snapshotIngress). \<forall>rSvc \<in> set (services snapshotIngress).
      \<forall>port \<in> set (Ports (Message rSvc)).
        Matches (selectorFromSet (Selector (Message gwSystem))) (Labels (ObjectMeta (Message rPod))) \<and>
        Namespace (Metadata rSvc) = pod_Namespace (ObjectMeta (Message rPod)) \<and>
        Matches (selectorFromSet (svc_Selector (Message rSvc))) (Labels (ObjectMeta (Message rPod)))
        \<longrightarrow> Protocol port \<noteq> ''TCP''"
    by (simp add: scenario_defs snapshotIngress_def podIngress_def)
  have found: "findServicePorts selectorFromSet snapshotIngress gwSystem initialState =
      (LiteralRef 0, 1, initialState\<lparr>literals := [Map.empty]\<rparr>)"
    by (simp add: scenario_defs snapshotIngress_def podIngress_def analyzer_defs)
  show ?thesis
    using empty_servicePorts_without_fallback
      [where SelectorFromSet = selectorFromSet and c = snapshotIngress and r = gwSystem
         and st = initialState, OF bound selected no_tcp found]
    by (simp add: scenario_defs int_of_uint32_def)
qed

text \<open>
  Claim C10. The evaluation of a gateway never changes the default ports table, also
  when the fallback makes \<^verbatim>\<open>servicePorts\<close> a reference to it: the check of the servers
  only reads the map. The same holds for a whole pass, and after a pass that starts
  in the initial state the keys of the table are still 80, 443, 31400 and 15443.
\<close>

theorem default_ports_never_modified:
  "defaultIngressGatewayPorts (analyzeGateway SelectorFromSet c r st) =
     defaultIngressGatewayPorts st \<and>
   defaultIngressGatewayPorts (Analyze SelectorFromSet c st) = defaultIngressGatewayPorts st \<and>
   dom (defaultIngressGatewayPorts (Analyze SelectorFromSet c initialState)) =
     {80, 443, 31400, 15443}"
proof -
  have "dom initialPorts = {80, 443, 31400, 15443}"
    by (auto simp: initialPorts_def)
  then show ?thesis
    by (simp add: analyzeGateway_defaults Analyze_defaults initialState_def)
qed

text \<open>
  For \<open>gwSystem\<close> in the snapshot the fallback returns the reference to the default
  ports table; the table is the same after the evaluation and after the pass.
\<close>

theorem default_ports_never_modified_witness:
  "resolveServicePorts selectorFromSet gwSystem (LiteralRef 0) 0
       (initialState\<lparr>literals := [Map.empty]\<rparr>) =
     (Some DefaultIngressGatewayPortsRef, initialState\<lparr>literals := [Map.empty]\<rparr>) \<and>
   defaultIngressGatewayPorts (analyzeGateway selectorFromSet snapshot gwSystem initialState) =
     [80 \<mapsto> True, 443 \<mapsto> True, 31400 \<mapsto> True, 15443 \<mapsto> True] \<and>
   dom (defaultIngressGatewayPorts (Analyze selectorFromSet snapshot initialState)) =
     {80, 443, 31400, 15443}"
proof -
  have aliased: "resolveServicePorts selectorFromSet gwSystem (LiteralRef 0) 0
      (initialState\<lparr>literals := [Map.empty]\<rparr>) =
      (Some DefaultIngressGatewayPortsRef, initialState\<lparr>literals := [Map.empty]\<rparr>)"
    by (simp add: resolveServicePorts_def len_def index_def gwSystem_def)
  have table: "defaultIngressGatewayPorts initialState =
      [80 \<mapsto> True, 443 \<mapsto> True, 31400 \<mapsto> True, 15443 \<mapsto> True]"
    by (simp add: initialState_def initialPorts_def)
  note unchanged = default_ports_never_modified
    [where SelectorFromSet = selectorFromSet and c = snapshot and r = gwSystem
       and st = initialState]
  from unchanged have
    "defaultIngressGatewayPorts (analyzeGateway selectorFromSet snapshot gwSystem initialState) =
       defaultIngressGatewayPorts initialState"
    by (rule conjunct1)
  then have kept:
    "defaultIngressGatewayPorts (analyzeGateway selectorFromSet snapshot gwSystem initialState) =
       [80 \<mapsto> True, 443 \<mapsto> True, 31400 \<mapsto> True, 15443 \<mapsto> True]"
    using table by (rule trans)
  from unchanged have keys:
    "dom (defaultIngressGatewayPorts (Analyze selectorFromSet snapshot initialState)) =
       {80, 443, 31400, 15443}"
    by (rule conjunct2 [THEN conjunct2])
  from aliased kept keys show ?thesis
    by (intro conjI)
qed

end
